theory Spec2Isabelle
  imports Main "HOL-Library.Word"
begin

section \<open>The password hasher\<close>

text \<open>
  The hasher is the exported function of the main module:
  \<^verbatim>\<open>
  var hash = module.exports = function(url, pass) {
    url = getDomain(url);
    if(!url || !pass) return;
    var encrypted = crypto.PBKDF2(pass, url, { keySize: 64/32, iterations: 500 });
    encrypted = '$' + encrypted.toString(crypto.enc.Base64);
    encrypted = encrypted.replace(/[a-z]/, function(m) { return m.toUpperCase(); });
    return encrypted;
  };
  \<close>
  Its two collaborators, \<open>utils.getDomain\<close> and \<open>crypto.PBKDF2\<close>, live in modules
  whose text is not available, so the model takes both as parameters: a domain
  normaliser from strings to strings (the empty string standing for every falsy result)
  and a key derivation from the secret, the salt, the key size in 32-bit words and the
  iteration count to the derived bytes. JavaScript strings are modelled as HOL strings;
  an absent result (\<open>return;\<close>) is \<open>None\<close>.
\<close>

type_synonym byte = "8 word"

type_synonym normaliser = "string \<Rightarrow> string"

type_synonym kdf = "string \<Rightarrow> string \<Rightarrow> nat \<Rightarrow> nat \<Rightarrow> byte list"

subsection \<open>Character classes and \<open>toUpperCase\<close>\<close>

text \<open>The regular expression class \<open>[a-z]\<close>: the code units 97 to 122.\<close>

definition is_az :: "char \<Rightarrow> bool" where
  "is_az c \<longleftrightarrow> (97::nat) \<le> of_char c \<and> of_char c \<le> (122::nat)"

text \<open>The class \<open>[A-Z]\<close>: the code units 65 to 90.\<close>

definition is_AZ :: "char \<Rightarrow> bool" where
  "is_AZ c \<longleftrightarrow> (65::nat) \<le> of_char c \<and> of_char c \<le> (90::nat)"

text \<open>\<open>m.toUpperCase()\<close> on a single code unit of the 8-bit range modelled here: the
  letters \<open>a\<close> to \<open>z\<close> move down by 32, every other unit of the ASCII range is kept.\<close>

definition toUpperCase :: "char \<Rightarrow> char" where
  "toUpperCase c = (if is_az c then char_of (of_char c - (32::nat)) else c)"

subsection \<open>\<open>String.prototype.replace\<close> with a pattern that is not global\<close>

text \<open>\<open>s.replace(/[a-z]/, f)\<close>: the leftmost match of the class is replaced by what the
  callback returns for it, the rest of the string is copied; without a match the string
  is returned as it is.\<close>

fun replace_az :: "(char \<Rightarrow> char) \<Rightarrow> string \<Rightarrow> string" where
  "replace_az f [] = []"
| "replace_az f (c # cs) = (if is_az c then f c # cs else c # replace_az f cs)"

subsection \<open>Base64\<close>

text \<open>
  Modelled from the spec: \<open>crypto.enc.Base64\<close> belongs to the \<open>./crypto\<close> module, which
  is not among the available sources. The spec says the derived bytes are encoded "as a
  base64 string"; the model is the standard encoding with the alphabet
  \<open>A-Z a-z 0-9 + /\<close> and \<open>=\<close> padding, three bytes giving four characters.
\<close>

definition b64map :: string where
  "b64map = ''ABCDEFGHIJKLMNOPQRSTUVWXYZabcdefghijklmnopqrstuvwxyz0123456789+/''"

definition sextet :: "nat \<Rightarrow> char" where
  "sextet t = b64map ! (t mod 64)"

definition triplet :: "byte \<Rightarrow> byte \<Rightarrow> byte \<Rightarrow> nat" where
  "triplet b1 b2 b3 = unat b1 * 65536 + unat b2 * 256 + unat b3"

fun Base64_stringify :: "byte list \<Rightarrow> string" where
  "Base64_stringify [] = []"
| "Base64_stringify [b1] =
     (let t = triplet b1 0 0 in
      [sextet (t div 262144), sextet (t div 4096), CHR ''='', CHR ''=''])"
| "Base64_stringify [b1, b2] =
     (let t = triplet b1 b2 0 in
      [sextet (t div 262144), sextet (t div 4096), sextet (t div 64), CHR ''=''])"
| "Base64_stringify (b1 # b2 # b3 # bs) =
     (let t = triplet b1 b2 b3 in
      [sextet (t div 262144), sextet (t div 4096), sextet (t div 64), sextet t]
      @ Base64_stringify bs)"

subsection \<open>The exported function\<close>

definition hash :: "normaliser \<Rightarrow> kdf \<Rightarrow> string \<Rightarrow> string \<Rightarrow> string option" where
  "hash getDomain PBKDF2 url pass =
     (let url = getDomain url in
      if url = [] \<or> pass = [] then None
      else
        let encrypted = PBKDF2 pass url (64 div 32) 500;
            encrypted = CHR ''$'' # Base64_stringify encrypted;
            encrypted = replace_az toUpperCase encrypted
        in Some encrypted)"

section \<open>The component installer\<close>

text \<open>
  \<open>lib/Package.js\<close> of the bundled \<open>component\<close> module. A package is an event emitter
  that installs itself with asynchronous file-system and network calls and reports by
  emitting \<open>dep\<close>, \<open>file\<close>, \<open>exists\<close>, \<open>error\<close> and \<open>end\<close>.

  The model is in direct style. The environment (\<open>fs\<close>, \<open>mkdirp\<close>, \<open>superagent\<close>,
  \<open>JSON\<close>, \<open>path.join\<close>) is a record of functions that answer each request by a fixed
  function of the request; the writes of a run do not change what its later reads see.
  Every asynchronous function returns the list of effects it causes (requests issued and
  events emitted) together with what becomes of its callback. The effects are listed in
  the order of one schedule, the one in which every task of a batch runs to its end before
  the next one starts; the run is followed up to the first exception.

  An emitted event is recorded as an effect. \<open>Package.js\<close> attaches a single listener,
  \<open>done\<close> to the \<open>end\<close> event of a dependency. An \<open>EventEmitter\<close> throws the error of
  an \<open>error\<close> event that has no listener: whether a listener for \<open>error\<close> has been
  attached to a package by code outside \<open>Package.js\<close> is the field \<open>error_listener\<close> of
  the environment, and such a listener is taken to return. An exception raised
  synchronously reaches the caller (\<open>Threw\<close>); one raised while the callback of an
  asynchronous call runs reaches no caller (\<open>Uncaught\<close>).
\<close>

subsection \<open>Errors, outcomes, effects\<close>

text \<open>\<open>new Error(message)\<close>, the \<open>SyntaxError\<close> of \<open>JSON.parse\<close>, and the errors of \<open>fs\<close>
  and \<open>mkdirp\<close>, which carry a \<open>code\<close> such as \<open>ENOENT\<close>.\<close>

datatype error = Error string | SyntaxError | ErrnoError string

fun err_code :: "error \<Rightarrow> string option" where
  "err_code (ErrnoError c) = Some c"
| "err_code (Error m) = None"
| "err_code SyntaxError = None"

record options =
  opt_dest :: "string option"
  opt_force :: bool

record Package =
  name :: string
  dest :: string
  force :: bool
  version :: string

text \<open>The manifest \<open>component.json\<close> after parsing; an absent key is \<open>None\<close>.\<close>

record manifest =
  scripts :: "string list option"
  styles :: "string list option"
  templates :: "string list option"
  dependencies :: "(string \<times> string) list option"
  repo :: "string option"

record response =
  res_ok :: bool
  res_text :: string

record world =
  fs_readFile :: "string \<Rightarrow> error + string"
  fs_writeFile :: "string \<Rightarrow> string \<Rightarrow> error option"
  mkdirp :: "string \<Rightarrow> error option"
  request_get :: "string \<Rightarrow> response"
  JSON_parse :: "string \<Rightarrow> manifest option"
  JSON_stringify :: "manifest \<Rightarrow> string"
  path_join :: "string \<Rightarrow> string \<Rightarrow> string"
  error_listener :: "Package \<Rightarrow> bool"

datatype event =
    EvDep Package
  | EvFile string string
  | EvExists
  | EvError error
  | EvEnd

datatype effect =
    ReadFile string
  | WriteFile string string
  | Mkdir string
  | Get string
  | Emit Package event

text \<open>What becomes of a callback (or, for \<open>install\<close>, of the package's terminal event):
  it is reached with a value, it is never reached, an exception was thrown to the caller,
  an exception was raised inside a callback and caught by nobody, or the model ran out of
  fuel.\<close>

datatype 'a outcome = Settled 'a | Pending | Threw error | Uncaught error | OutOfFuel

text \<open>What an exception becomes when the code that raised it was running as the callback
  of an asynchronous call.\<close>

fun in_callback :: "'a outcome \<Rightarrow> 'a outcome" where
  "in_callback (Threw e) = Uncaught e"
| "in_callback r = r"

text \<open>\<open>self.emit('error', err)\<close>: with a listener the event is delivered, without one
  the emitter throws \<open>err\<close>.\<close>

definition emit_error :: "world \<Rightarrow> Package \<Rightarrow> error \<Rightarrow> event outcome" where
  "emit_error w self err =
     (if error_listener w self then Settled (EvError err) else Threw err)"

type_synonym 'a run = "effect list \<times> 'a outcome"

subsection \<open>Batch\<close>

text \<open>
  Modelled from the spec: the \<open>batch\<close> module is not among the available sources. The
  spec describes a batch as "a set of concurrently launched operations whose completion is
  observed jointly": all are launched, the callback of \<open>end\<close> is reached without an error
  once every operation has called \<open>done()\<close> (at once for an empty batch), and with the
  error as soon as one calls \<open>done(err)\<close>; the first error wins, here the first in the order
  of the tasks. A task that never calls \<open>done\<close> leaves the batch pending unless another
  one fails. An exception in a task leaves \<open>end\<close> and the tasks after it are not started;
  the run is not followed beyond an uncaught exception either.
\<close>

fun first_wins :: "error option outcome \<Rightarrow> error option outcome \<Rightarrow> error option outcome" where
  "first_wins r (Threw e) = Threw e"
| "first_wins r (Uncaught e) = Uncaught e"
| "first_wins r OutOfFuel = OutOfFuel"
| "first_wins (Settled (Some e)) r = Settled (Some e)"
| "first_wins (Settled None) r = r"
| "first_wins Pending (Settled (Some e)) = Settled (Some e)"
| "first_wins r r' = r"

fun Batch_end :: "error option run list \<Rightarrow> error option run" where
  "Batch_end [] = ([], Settled None)"
| "Batch_end ((es, Threw e) # tasks) = (es, Threw e)"
| "Batch_end ((es, Uncaught e) # tasks) = (es, Uncaught e)"
| "Batch_end ((es, OutOfFuel) # tasks) = (es, OutOfFuel)"
| "Batch_end ((es, r) # tasks) =
     (let (es', r') = Batch_end tasks in (es @ es', first_wins r r'))"

subsection \<open>The constructor and the path helpers\<close>

text \<open>
  \<^verbatim>\<open>
  function Package(pkg, version, options) {
    options = options || {};
    if (!pkg) throw new Error('pkg required');
    if (!version) throw new Error('version required');
    this.name = pkg;
    this.dest = options.dest || 'components';
    this.force = !! options.force;
    this.version = version;
  }
  \<close>
  A missing argument is \<open>None\<close>; the empty string is falsy as well.
\<close>

definition falsy :: "string option \<Rightarrow> bool" where
  "falsy s \<longleftrightarrow> s = None \<or> s = Some []"

definition new_Package :: "string option \<Rightarrow> string option \<Rightarrow> options option \<Rightarrow> error + Package" where
  "new_Package pkg vers options =
     (let options = (case options of
                       None \<Rightarrow> \<lparr>opt_dest = None, opt_force = False\<rparr>
                     | Some given \<Rightarrow> given)
      in if falsy pkg then Inl (Error ''pkg required'')
         else if falsy vers then Inl (Error ''version required'')
         else Inr \<lparr>name = the pkg,
                   dest = (if falsy (opt_dest options) then ''components''
                           else the (opt_dest options)),
                   force = opt_force options,
                   version = the vers\<rparr>)"

text \<open>\<open>join(this.dest, this.name.split('/').join('-'))\<close>\<close>

definition dirname :: "world \<Rightarrow> Package \<Rightarrow> string" where
  "dirname w self =
     path_join w (dest self) (map (\<lambda>c. if c = CHR ''/'' then CHR ''-'' else c) (name self))"

definition join :: "world \<Rightarrow> Package \<Rightarrow> string \<Rightarrow> string" where
  "join w self path = path_join w (dirname w self) path"

definition url :: "Package \<Rightarrow> string \<Rightarrow> string" where
  "url self file =
     ''https://raw.github.com/'' @ name self @ ''/'' @ version self @ ''/'' @ file"

subsection \<open>Reading, fetching, writing\<close>

text \<open>
  \<^verbatim>\<open>
  Package.prototype.getLocalJSON = function(fn){
    fs.readFile(this.join('component.json'), 'utf8', function(err, json){
      if (err) return fn(err);
      try { json = JSON.parse(json); } catch (err) { return fn(err); }
      fn(null, json);
    });
  };
  \<close>
  The callback is always reached: \<open>Inl err\<close> is \<open>fn(err)\<close>, \<open>Inr obj\<close> is \<open>fn(null, obj)\<close>.
\<close>

definition getLocalJSON :: "world \<Rightarrow> Package \<Rightarrow> effect list \<times> (error + manifest)" where
  "getLocalJSON w self =
     (let path = join w self ''component.json'' in
      ([ReadFile path],
       (case fs_readFile w path of
          Inl err \<Rightarrow> Inl err
        | Inr json \<Rightarrow>
            (case JSON_parse w json of
               None \<Rightarrow> Inl SyntaxError
             | Some obj \<Rightarrow> Inr obj))))"

text \<open>\<open>getJSON\<close>: one GET of the remote manifest; a response that is not ok gives
  \<open>new Error('failed to fetch ' + url)\<close>.\<close>

definition getJSON :: "world \<Rightarrow> Package \<Rightarrow> effect list \<times> (error + manifest)" where
  "getJSON w self =
     (let url = url self ''component.json''; res = request_get w url in
      ([Get url],
       (if res_ok res then
          (case JSON_parse w (res_text res) of
             None \<Rightarrow> Inl SyntaxError
           | Some json \<Rightarrow> Inr json)
        else Inl (Error (''failed to fetch '' @ url)))))"

text \<open>\<open>writeFile(file, str, fn)\<close>: \<open>fs.writeFile(this.join(file), str, fn)\<close>.\<close>

definition writeFile :: "world \<Rightarrow> Package \<Rightarrow> string \<Rightarrow> string \<Rightarrow> error option run" where
  "writeFile w self file str =
     (let file = join w self file in
      ([WriteFile file str], Settled (fs_writeFile w file str)))"

text \<open>\<open>getFiles(files, fn)\<close>: one batch task for each file, which emits \<open>file\<close>, fetches
  the file and writes it, or fails when the response is not ok.\<close>

definition getFile :: "world \<Rightarrow> Package \<Rightarrow> string \<Rightarrow> error option run" where
  "getFile w self file =
     (let url = url self file; res = request_get w url in
      if res_ok res then
        (let (es, r) = writeFile w self file (res_text res) in
         (Emit self (EvFile file url) # Get url # es, r))
      else
        ([Emit self (EvFile file url), Get url],
         Settled (Some (Error (''failed to fetch '' @ url)))))"

definition getFiles :: "world \<Rightarrow> Package \<Rightarrow> string list \<Rightarrow> error option run" where
  "getFiles w self files = Batch_end (map (getFile w self) files)"

subsection \<open>Dependencies\<close>

text \<open>
  \<^verbatim>\<open>
  Package.prototype.getDependencies = function(deps, fn){
    var self = this;
    var batch = new Batch;
    Object.keys(deps).forEach(function(name){
      var version = deps[name];
      if ('*' == version) version = 'master';
      batch.push(function(done){
        var pkg = new Package(name, version, { dest: self.dest, force: self.force });
        self.emit('dep', pkg);
        pkg.on('end', done);
        pkg.install();
      });
    });
    batch.end(fn);
  };
  \<close>
  The dependency mapping is the list of its entries in key order. The install method of
  the new packages is the parameter \<open>install\<close>. Only the \<open>end\<close> event of a dependency is
  connected to \<open>done\<close>: after any other terminal event \<open>done\<close> is never called. The
  constructor and the synchronous part of \<open>install\<close> run inside \<open>batch.end\<close>, so what
  they throw leaves \<open>getDependencies\<close>.
\<close>

fun on_end :: "event outcome \<Rightarrow> error option outcome" where
  "on_end (Settled EvEnd) = Settled None"
| "on_end (Settled ev) = Pending"
| "on_end Pending = Pending"
| "on_end (Threw e) = Threw e"
| "on_end (Uncaught e) = Uncaught e"
| "on_end OutOfFuel = OutOfFuel"

definition dep_task :: "(Package \<Rightarrow> event run) \<Rightarrow> Package \<Rightarrow> string \<times> string \<Rightarrow> error option run" where
  "dep_task install self entry =
     (let nm = fst entry;
          vers = snd entry;
          vers = (if ''*'' = vers then ''master'' else vers)
      in case new_Package (Some nm) (Some vers)
                (Some \<lparr>opt_dest = Some (dest self), opt_force = force self\<rparr>) of
           Inl e \<Rightarrow> ([], Threw e)
         | Inr pkg \<Rightarrow>
             (let (es, r) = install pkg in (Emit self (EvDep pkg) # es, on_end r)))"

definition getDependencies ::
  "(Package \<Rightarrow> event run) \<Rightarrow> Package \<Rightarrow> (string \<times> string) list \<Rightarrow> error option run" where
  "getDependencies install self deps = Batch_end (map (dep_task install self) deps)"

subsection \<open>Installing\<close>

text \<open>
  \<^verbatim>\<open>
  Package.prototype.reallyInstall = function(){
    var self = this;
    var batch = new Batch;
    this.getJSON(function(err, json){
      if (err) return self.emit('error', err);
      var files = [];
      if (json.scripts) files = files.concat(json.scripts);
      if (json.styles) files = files.concat(json.styles);
      if (json.templates) files = files.concat(json.templates);
      json.repo = json.repo || 'https://github.com/' + self.name;
      if (json.dependencies) {
        batch.push(function(done){ self.getDependencies(json.dependencies, done); });
      }
      batch.push(function(done){
        mkdir(self.dirname(), function(err){
          json = JSON.stringify(json, null, 2);
          self.writeFile('component.json', json, done);
        });
      });
      batch.push(function(done){
        mkdir(self.dirname(), function(err){ self.getFiles(files, done); });
      });
      batch.end(function(err){
        if (err) return self.emit('error', err);
        self.emit('end');
      });
    });
  };
  \<close>
  Both \<open>mkdir\<close> callbacks receive \<open>err\<close> and do not look at it. Everything after
  \<open>getJSON\<close> runs in callbacks: an exception there, also one thrown out of
  \<open>getDependencies\<close>, is uncaught.
\<close>

definition concat_files :: "string list \<Rightarrow> string list option \<Rightarrow> string list" where
  "concat_files files arr = (case arr of None \<Rightarrow> files | Some xs \<Rightarrow> files @ xs)"

definition write_manifest :: "world \<Rightarrow> Package \<Rightarrow> manifest \<Rightarrow> error option run" where
  "write_manifest w self json =
     (let err = mkdirp w (dirname w self);
          json = JSON_stringify w json;
          (es, r) = writeFile w self ''component.json'' json
      in (Mkdir (dirname w self) # es, r))"

definition fetch_files :: "world \<Rightarrow> Package \<Rightarrow> string list \<Rightarrow> error option run" where
  "fetch_files w self files =
     (let err = mkdirp w (dirname w self);
          (es, r) = getFiles w self files
      in (Mkdir (dirname w self) # es, r))"

text \<open>The callback of \<open>batch.end\<close> in \<open>reallyInstall\<close>.\<close>

fun finish :: "world \<Rightarrow> Package \<Rightarrow> error option run \<Rightarrow> event run" where
  "finish w self (es, Settled (Some err)) =
     (es @ [Emit self (EvError err)], in_callback (emit_error w self err))"
| "finish w self (es, Settled None) = (es @ [Emit self EvEnd], Settled EvEnd)"
| "finish w self (es, Pending) = (es, Pending)"
| "finish w self (es, Threw e) = (es, Uncaught e)"
| "finish w self (es, Uncaught e) = (es, Uncaught e)"
| "finish w self (es, OutOfFuel) = (es, OutOfFuel)"

definition reallyInstall :: "(Package \<Rightarrow> event run) \<Rightarrow> world \<Rightarrow> Package \<Rightarrow> event run" where
  "reallyInstall install w self =
     (case getJSON w self of
        (es0, Inl err) \<Rightarrow>
          (es0 @ [Emit self (EvError err)], in_callback (emit_error w self err))
      | (es0, Inr json) \<Rightarrow>
          (let files = [];
               files = concat_files files (scripts json);
               files = concat_files files (styles json);
               files = concat_files files (templates json);
               json = json\<lparr>repo :=
                        Some (if falsy (repo json) then ''https://github.com/'' @ name self
                              else the (repo json))\<rparr>;
               tasks = (case dependencies json of
                          None \<Rightarrow> []
                        | Some deps \<Rightarrow> [getDependencies install self deps])
                       @ [write_manifest w self json, fetch_files w self files];
               (es, r) = finish w self (Batch_end tasks)
           in (es0 @ es, r)))"

text \<open>
  \<^verbatim>\<open>
  Package.prototype.install = function(){
    var self = this;
    var name = this.name;
    if (!~name.indexOf('/')) {
      return this.emit('error', new Error('invalid component name "' + name + '"'));
    }
    this.getLocalJSON(function(err, json){
      if (err && err.code == 'ENOENT') { self.reallyInstall(); }
      else if (err) { self.emit('error', err); }
      else if (!self.force) { self.emit('exists', self); }
      else { self.reallyInstall(); }
    });
  };
  \<close>
  \<open>install_with\<close> is the body of the method, with the install method of the dependencies
  as a parameter; \<open>install\<close> closes the recursion, its first argument bounding the depth
  of nested dependencies that is followed (the code itself has no bound and no cycle
  detection). The check of the name is synchronous; the rest runs in the callback of
  \<open>fs.readFile\<close>.
\<close>

definition invalid_name :: "Package \<Rightarrow> error" where
  "invalid_name self = Error (''invalid component name '' @ [CHR 0x22] @ name self @ [CHR 0x22])"

definition install_with :: "(Package \<Rightarrow> event run) \<Rightarrow> world \<Rightarrow> Package \<Rightarrow> event run" where
  "install_with install w self =
     (if CHR ''/'' \<notin> set (name self) then
        ([Emit self (EvError (invalid_name self))], emit_error w self (invalid_name self))
      else
        (case getLocalJSON w self of
           (es0, Inl err) \<Rightarrow>
             (if err_code err = Some ''ENOENT'' then
                (let (es, r) = reallyInstall install w self in (es0 @ es, r))
              else (es0 @ [Emit self (EvError err)], in_callback (emit_error w self err)))
         | (es0, Inr json) \<Rightarrow>
             (if \<not> force self then (es0 @ [Emit self EvExists], Settled EvExists)
              else (let (es, r) = reallyInstall install w self in (es0 @ es, r)))))"

primrec install :: "nat \<Rightarrow> world \<Rightarrow> Package \<Rightarrow> event run" where
  "install 0 w self = ([], OutOfFuel)"
| "install (Suc depth) w self = install_with (install depth w) w self"

text \<open>The effects that write to the file system.\<close>

fun is_write :: "effect \<Rightarrow> bool" where
  "is_write (WriteFile path str) = True"
| "is_write (Mkdir path) = True"
| "is_write e = False"

text \<open>The effects that touch the network or the file system at all.\<close>

fun is_io :: "effect \<Rightarrow> bool" where
  "is_io (Emit pkg ev) = False"
| "is_io e = True"

section \<open>What the specification says, as definitions\<close>

text \<open>The spec's post-processing rule, in its own words: "uppercase exactly the first
  lowercase letter encountered in the encoded string (subsequent lowercase letters are
  left unchanged)". Lowercase letters and their uppercase forms are given by the two
  alphabets, letter by letter; the string is cut at its first lowercase letter, and
  without one it is left as it is.\<close>

definition lower_letters :: string where
  "lower_letters = ''abcdefghijklmnopqrstuvwxyz''"

definition upper_letters :: string where
  "upper_letters = ''ABCDEFGHIJKLMNOPQRSTUVWXYZ''"

definition spec_upper :: "char \<Rightarrow> char option" where
  "spec_upper c = map_of (zip lower_letters upper_letters) c"

definition spec_uppercase_first :: "string \<Rightarrow> string" where
  "spec_uppercase_first s =
     (case dropWhile (\<lambda>c. spec_upper c = None) s of
        [] \<Rightarrow> s
      | c # cs \<Rightarrow>
          (case spec_upper c of
             None \<Rightarrow> s
           | Some u \<Rightarrow> takeWhile (\<lambda>c. spec_upper c = None) s @ u # cs))"

text \<open>The position of the first lowercase letter of a string (its length when there is
  none).\<close>

definition first_az :: "string \<Rightarrow> nat" where
  "first_az s = length (takeWhile (\<lambda>c. \<not> is_az c) s)"

text \<open>The spec's descriptor for one entry of a dependency mapping: the entry's name, the
  default branch for the wildcard, the parent's destination directory and
  force-reinstall flag.\<close>

definition spec_dep_package :: "Package \<Rightarrow> string \<times> string \<Rightarrow> Package" where
  "spec_dep_package parent entry =
     \<lparr>name = fst entry, dest = dest parent, force = force parent,
      version = (if snd entry = ''*'' then ''master'' else snd entry)\<rparr>"

section \<open>Sample environments\<close>

text \<open>Concrete collaborators, on which the model is run in the examples below.\<close>

text \<open>
  Modelled from the spec: \<open>utils.getDomain\<close> is not among the available sources. The
  sample normaliser knows the three host names the README and the spec give as examples,
  which "all normalize to \<open>google\<close>", and returns every other string as it is.
\<close>

definition readme_getDomain :: normaliser where
  "readme_getDomain u =
     (if u = ''accounts.google.com'' \<or> u = ''google.com'' \<or> u = ''www.google.com.au''
      then ''google'' else u)"

text \<open>A key derivation that returns the given bytes whatever it is asked: it fixes the
  derived key, so that the rest of the hasher can be run on a chosen key.\<close>

definition fixed_kdf :: "byte list \<Rightarrow> kdf" where
  "fixed_kdf key pass salt keySize iterations = key"

text \<open>
  Modelled from the spec: \<open>crypto.PBKDF2\<close> is not among the available sources. The spec
  calls it a deterministic key derivation with a fixed iteration count and key size; the
  code asks for PBKDF2 with two words of key and 500 iterations and names no hash
  function, which for this library means SHA-1: PBKDF2-HMAC-SHA1 of RFC 2898. Its
  definition is not repeated here: \<open>PBKDF2_values\<close> is a table of three of its values for the salt
  \<open>google\<close>, two words of key and 500 iterations, as a reference implementation of
  PBKDF2-HMAC-SHA1 computes them (outside the table the function gives no bytes, and
  it is not used there):
  \<^item> \<open>P@$$W0RD\<close>: \<open>45 4e ec d8 67 6e ee 90\<close>, in base64 \<open>RU7s2Gdu7pA=\<close>;
  \<^item> \<open>secret\<close>: \<open>1c 26 0b cb 82 10 ce f9\<close>, in base64 \<open>HCYLy4IQzvk=\<close>;
  \<^item> \<open>secret135\<close>: \<open>44 95 fa 40 a4 bc 60 41\<close>, in base64 \<open>RJX6QKS8YEE=\<close>.
\<close>

definition PBKDF2_values :: kdf where
  "PBKDF2_values pass salt keySize iterations =
     (if salt = ''google'' \<and> keySize = 2 \<and> iterations = 500 then
        (if pass = ''P@$$W0RD'' then [0x45, 0x4e, 0xec, 0xd8, 0x67, 0x6e, 0xee, 0x90]
         else if pass = ''secret'' then [0x1c, 0x26, 0x0b, 0xcb, 0x82, 0x10, 0xce, 0xf9]
         else if pass = ''secret135'' then [0x44, 0x95, 0xfa, 0x40, 0xa4, 0xbc, 0x60, 0x41]
         else [])
      else [])"

text \<open>Two manifests, a server that knows them and their files, and a world around that
  server whose every read of a local file has the given result, whose writes and
  directory creations succeed, whose \<open>path.join\<close> puts a slash between its arguments,
  and in which nobody has attached a listener for \<open>error\<close> to any package.\<close>

definition dialog_json :: manifest where
  "dialog_json =
     \<lparr>scripts = Some [''index.js''], styles = Some [''dialog.css''], templates = None,
      dependencies = Some [(''component/emitter'', ''*'')], repo = None\<rparr>"

definition emitter_json :: manifest where
  "emitter_json =
     \<lparr>scripts = Some [''index.js''], styles = None, templates = None,
      dependencies = None, repo = None\<rparr>"

definition sample_get :: "string \<Rightarrow> response" where
  "sample_get u =
     (if u = ''https://raw.github.com/component/dialog/1.0.0/component.json''
      then \<lparr>res_ok = True, res_text = ''dialog manifest''\<rparr>
      else if u = ''https://raw.github.com/component/emitter/master/component.json''
      then \<lparr>res_ok = True, res_text = ''emitter manifest''\<rparr>
      else if u = ''https://raw.github.com/component/dialog/1.0.0/index.js''
            \<or> u = ''https://raw.github.com/component/dialog/1.0.0/dialog.css''
            \<or> u = ''https://raw.github.com/component/emitter/master/index.js''
      then \<lparr>res_ok = True, res_text = ''source text''\<rparr>
      else \<lparr>res_ok = False, res_text = []\<rparr>)"

definition sample_parse :: "string \<Rightarrow> manifest option" where
  "sample_parse s =
     (if s = ''dialog manifest'' then Some dialog_json
      else if s = ''emitter manifest'' then Some emitter_json
      else None)"

definition sample_world :: "(error + string) \<Rightarrow> world" where
  "sample_world local =
     \<lparr>fs_readFile = (\<lambda>path. local),
      fs_writeFile = (\<lambda>path str. None),
      mkdirp = (\<lambda>path. None),
      request_get = sample_get,
      JSON_parse = sample_parse,
      JSON_stringify = (\<lambda>json. ''manifest text''),
      path_join = (\<lambda>a b. a @ ''/'' @ b),
      error_listener = (\<lambda>pkg. False)\<rparr>"

definition failing_mkdirp :: "string \<Rightarrow> error option" where
  "failing_mkdirp path = Some (ErrnoError ''EACCES'')"

text \<open>A listener for \<open>error\<close> on every package, as a caller may attach one.\<close>

definition listening :: "Package \<Rightarrow> bool" where
  "listening pkg = True"

definition dialog :: Package where
  "dialog =
     \<lparr>name = ''component/dialog'', dest = ''components'', force = False, version = ''1.0.0''\<rparr>"

definition emitter :: Package where
  "emitter =
     \<lparr>name = ''component/emitter'', dest = ''components'', force = False, version = ''master''\<rparr>"

text \<open>A package the sample server does not know, and one whose name has no separator.\<close>

definition tip :: Package where
  "tip =
     \<lparr>name = ''component/tip'', dest = ''components'', force = False, version = ''master''\<rparr>"

definition lodash :: Package where
  "lodash = \<lparr>name = ''lodash'', dest = ''components'', force = False, version = ''master''\<rparr>"

section \<open>Properties of the password hasher\<close>

subsection \<open>The single substitution\<close>



lemma replace_az_none: "\<not> list_ex is_az s \<Longrightarrow> replace_az f s = s"
  by (induction s) auto

lemma replace_az_split:
  "replace_az f s = takeWhile (\<lambda>c. \<not> is_az c) s @
     (case dropWhile (\<lambda>c. \<not> is_az c) s of [] \<Rightarrow> [] | c # cs \<Rightarrow> f c # cs)"
  by (induction s) auto

subsection \<open>The code's letters and the spec's alphabets\<close>

lemma az_range:
  assumes "is_az c"
  shows "(of_char c :: nat) \<in> set [97..<123]"
proof -
  define n :: nat where "n = of_char c"
  from assms have "97 \<le> n" and "n \<le> 122"
    by (simp_all add: is_az_def n_def)
  then have "n \<in> {97..<123}"
    by simp
  then show ?thesis
    by (simp only: n_def atLeastLessThan_upt)
qed

lemma range_letters: "\<forall>n\<in>set [97..<123]. char_of (n::nat) \<in> set lower_letters"
  by (simp add: upt_rec_numeral lower_letters_def char_of_def bit_Suc_0_iff)

lemma is_az_lower: "is_az c \<Longrightarrow> c \<in> set lower_letters"
proof -
  assume "is_az c"
  then have "char_of (of_char c :: nat) \<in> set lower_letters"
    using az_range range_letters by blast
  then show ?thesis by simp
qed

lemma lower_is_az: "c \<in> set lower_letters \<Longrightarrow> is_az c"
  by (auto simp: lower_letters_def is_az_def)

lemma spec_upper_lower:
  "c \<in> set lower_letters \<Longrightarrow> spec_upper c = Some (toUpperCase c)"
  by (auto simp: lower_letters_def upper_letters_def spec_upper_def toUpperCase_def is_az_def
      char_of_def bit_Suc_0_iff)

lemma spec_upper_az: "is_az c \<Longrightarrow> spec_upper c = Some (toUpperCase c)"
  by (simp add: is_az_lower spec_upper_lower)

lemma spec_upper_None: "spec_upper c = None \<longleftrightarrow> \<not> is_az c"
proof
  assume "spec_upper c = None"
  then show "\<not> is_az c"
    using spec_upper_az by fastforce
next
  assume "\<not> is_az c"
  then have "c \<notin> set lower_letters"
    using lower_is_az by blast
  then show "spec_upper c = None"
    by (simp add: spec_upper_def map_of_eq_None_iff lower_letters_def upper_letters_def)
qed

lemma replace_az_spec: "replace_az toUpperCase s = spec_uppercase_first s"
proof -
  have same: "(\<lambda>c. spec_upper c = None) = (\<lambda>c. \<not> is_az c)"
    by (simp add: spec_upper_None fun_eq_iff)
  show ?thesis
  proof (cases "dropWhile (\<lambda>c. \<not> is_az c) s")
    case Nil
    then have "\<not> list_ex is_az s"
      by (simp add: list_ex_iff)
    then have "replace_az toUpperCase s = s"
      by (rule replace_az_none)
    moreover have "spec_uppercase_first s = s"
      unfolding spec_uppercase_first_def same Nil by simp
    ultimately show ?thesis by simp
  next
    case (Cons c cs)
    then have "is_az c"
      by (simp add: dropWhile_eq_Cons_conv)
    then have "spec_upper c = Some (toUpperCase c)"
      by (rule spec_upper_az)
    then have "spec_uppercase_first s = takeWhile (\<lambda>c. \<not> is_az c) s @ toUpperCase c # cs"
      unfolding spec_uppercase_first_def same Cons by simp
    with Cons show ?thesis
      by (simp add: replace_az_split)
  qed
qed

lemma replace_az_length: "length (replace_az f s) = length s"
  by (induction s) auto




lemma first_az_is_az: "list_ex is_az s \<Longrightarrow> is_az (s ! first_az s)"
  unfolding first_az_def by (induction s) auto

lemma replace_az_at_first: "list_ex is_az s \<Longrightarrow> replace_az f s ! first_az s = f (s ! first_az s)"
  unfolding first_az_def by (induction s) auto

lemma replace_az_elsewhere: "i \<noteq> first_az s \<Longrightarrow> replace_az f s ! i = s ! i"
  unfolding first_az_def
proof (induction s arbitrary: i)
  case Nil
  then show ?case by simp
next
  case (Cons c cs)
  then show ?case by (cases i) auto
qed


lemma hash_Some:
  "getDomain site \<noteq> [] \<Longrightarrow> secret \<noteq> [] \<Longrightarrow>
   hash getDomain PBKDF2 site secret =
     Some (replace_az toUpperCase
             (CHR ''$'' # Base64_stringify (PBKDF2 secret (getDomain site) 2 500)))"
  by (simp add: hash_def Let_def del: replace_az.simps)

lemmas hash_eval =
  hash_def readme_getDomain_def fixed_kdf_def PBKDF2_values_def is_az_def is_AZ_def toUpperCase_def sextet_def
  triplet_def b64map_def char_of_def bit_Suc_0_iff

subsection \<open>The README's sample output\<close>


subsection \<open>Prefix and uppercase letter\<close>




subsection \<open>The computation\<close>

text \<open>
  C6. For a non-empty normalised domain and a non-empty secret the hasher derives a key
  from the secret with the normalised domain as salt, key size \<open>64/32 = 2\<close> words and 500
  iterations, encodes it as base64, puts \<open>$\<close> in front, and uppercases the first
  lowercase letter of that string and no other. The result is what the spec's rule
  \<open>spec_uppercase_first\<close> gives, which is written with the two alphabets and not with the
  code's character class and \<open>toUpperCase\<close>; it has the length of the string, it agrees
  with the string everywhere but at the position of the first lowercase letter, and there
  it has the letter of the uppercase alphabet that stands at the place of that lowercase
  letter.
\<close>

theorem hash_follows_spec:
  assumes "getDomain site \<noteq> []" and "secret \<noteq> []"
  shows "\<exists>out. hash getDomain PBKDF2 site secret = Some out \<and>
     (let enc = CHR ''$'' # Base64_stringify (PBKDF2 secret (getDomain site) 2 500) in
      out = spec_uppercase_first enc \<and>
      length out = length enc \<and>
      (\<forall>i. i \<noteq> first_az enc \<longrightarrow> out ! i = enc ! i) \<and>
      (list_ex is_az enc \<longrightarrow> spec_upper (enc ! first_az enc) = Some (out ! first_az enc)))"
proof -
  let ?enc = "CHR ''$'' # Base64_stringify (PBKDF2 secret (getDomain site) 2 500)"
  let ?out = "replace_az toUpperCase ?enc"
  have "hash getDomain PBKDF2 site secret = Some ?out"
    using assms by (rule hash_Some)
  moreover have "?out = spec_uppercase_first ?enc"
    by (rule replace_az_spec)
  moreover have "length ?out = length ?enc"
    by (rule replace_az_length)
  moreover have "\<forall>i. i \<noteq> first_az ?enc \<longrightarrow> ?out ! i = ?enc ! i"
    using replace_az_elsewhere by blast
  moreover have "spec_upper (?enc ! first_az ?enc) = Some (?out ! first_az ?enc)"
    if "list_ex is_az ?enc"
    using that first_az_is_az [OF that] replace_az_at_first [OF that, of toUpperCase]
    by (simp add: spec_upper_az del: replace_az.simps list_ex_Cons_iff)
  ultimately show ?thesis
    unfolding Let_def by blast
qed

theorem hash_follows_spec_witness:
  "readme_getDomain ''www.google.com.au'' \<noteq> [] \<and> ''secret'' \<noteq> [] \<and>
   CHR ''$'' # Base64_stringify (PBKDF2_values ''secret'' (readme_getDomain ''www.google.com.au'') 2 500)
     = ''$HCYLy4IQzvk='' \<and>
   spec_uppercase_first ''$HCYLy4IQzvk='' = ''$HCYLY4IQzvk='' \<and>
   hash readme_getDomain PBKDF2_values ''www.google.com.au'' ''secret'' = Some ''$HCYLY4IQzvk=''"
proof -
  have h1: "readme_getDomain ''www.google.com.au'' \<noteq> []"
    by (simp add: readme_getDomain_def)
  have h2: "''secret'' \<noteq> []"
    by simp
  show ?thesis
    using hash_follows_spec
      [of readme_getDomain "''www.google.com.au''" "''secret''" PBKDF2_values, OF h1 h2]
    by (simp add: hash_eval spec_uppercase_first_def spec_upper_def lower_letters_def
        upper_letters_def)
qed

subsection \<open>Absent results\<close>

text \<open>
  C7. When the normalised domain is empty or the secret is empty the hasher returns the
  absent result; the model has no error value for the hasher, as the code raises none.
\<close>

theorem hash_absent:
  "getDomain site = [] \<or> secret = [] \<Longrightarrow> hash getDomain PBKDF2 site secret = None"
  by (auto simp: hash_def)

theorem hash_absent_witness:
  "(readme_getDomain ''google.com'' = [] \<or> '''' = []) \<and>
   hash readme_getDomain (fixed_kdf [1, 2, 3, 4, 5, 6, 7, 8]) ''google.com'' '''' = None \<and>
   (readme_getDomain '''' = [] \<or> ''secret'' = []) \<and>
   hash readme_getDomain (fixed_kdf [1, 2, 3, 4, 5, 6, 7, 8]) '''' ''secret'' = None"
  using hash_absent [of readme_getDomain "''google.com''" "''''" "fixed_kdf [1, 2, 3, 4, 5, 6, 7, 8]"]
    hash_absent [of readme_getDomain "''''" "''secret''" "fixed_kdf [1, 2, 3, 4, 5, 6, 7, 8]"]
  by (simp add: readme_getDomain_def)

subsection \<open>Equivalent site identifiers\<close>

text \<open>
  C9. For a non-empty secret, two site identifiers with the same non-empty normalised
  domain have the same hash, and that hash is present.
\<close>

theorem hash_same_domain:
  assumes "getDomain a = getDomain b" and "getDomain a \<noteq> []" and "secret \<noteq> []"
  shows "hash getDomain PBKDF2 a secret = hash getDomain PBKDF2 b secret \<and>
         hash getDomain PBKDF2 a secret \<noteq> None"
  using assms by (simp add: hash_def Let_def del: replace_az.simps)

theorem hash_same_domain_witness:
  "readme_getDomain ''accounts.google.com'' = readme_getDomain ''www.google.com.au'' \<and>
   readme_getDomain ''accounts.google.com'' \<noteq> [] \<and> ''secret'' \<noteq> [] \<and>
   hash readme_getDomain (fixed_kdf [1, 2, 3, 4, 5, 6, 7, 8]) ''accounts.google.com'' ''secret''
     = hash readme_getDomain (fixed_kdf [1, 2, 3, 4, 5, 6, 7, 8]) ''www.google.com.au'' ''secret'' \<and>
   hash readme_getDomain (fixed_kdf [1, 2, 3, 4, 5, 6, 7, 8]) ''google.com'' ''secret''
     = Some ''$AQIDBAUGBWg=''"
proof -
  have h1: "readme_getDomain ''accounts.google.com'' = readme_getDomain ''www.google.com.au''"
    by (simp add: readme_getDomain_def)
  have h2: "readme_getDomain ''accounts.google.com'' \<noteq> []"
    by (simp add: readme_getDomain_def)
  have h3: "''secret'' \<noteq> []"
    by simp
  show ?thesis
    using hash_same_domain
      [of readme_getDomain "''accounts.google.com''" "''www.google.com.au''" "''secret''"
          "fixed_kdf [1, 2, 3, 4, 5, 6, 7, 8]", OF h1 h2 h3]
    by (simp add: hash_eval)
qed

section \<open>Properties of the installer\<close>

lemmas installer_defs =
  install_with_def getLocalJSON_def join_def dirname_def reallyInstall_def getJSON_def url_def
  falsy_def concat_files_def getDependencies_def dep_task_def new_Package_def write_manifest_def
  fetch_files_def getFiles_def getFile_def writeFile_def invalid_name_def emit_error_def Let_def

lemmas sample_defs =
  sample_world_def dialog_def emitter_def tip_def lodash_def sample_get_def sample_parse_def
  dialog_json_def emitter_json_def failing_mkdirp_def

subsection \<open>Batches\<close>

lemma on_end_Settled: "on_end r = Settled x \<Longrightarrow> x = None \<and> r = Settled EvEnd"
  by (cases r rule: on_end.cases) auto

lemma first_wins_None: "first_wins r r' = Settled None \<Longrightarrow> r = Settled None \<and> r' = Settled None"
  by (cases "(r, r')" rule: first_wins.cases) auto

lemma first_wins_Some:
  "first_wins r r' = Settled (Some e) \<Longrightarrow> r = Settled (Some e) \<or> r' = Settled (Some e)"
  by (cases "(r, r')" rule: first_wins.cases) auto

lemma Batch_end_None:
  "snd (Batch_end tasks) = Settled None \<Longrightarrow> \<forall>t\<in>set tasks. snd t = Settled None"
proof (induction tasks)
  case Nil
  then show ?case by simp
next
  case (Cons t tasks)
  obtain es r where t: "t = (es, r)"
    by (cases t)
  from Cons show ?case
    unfolding t by (cases r) (auto simp: case_prod_unfold Let_def dest!: first_wins_None)
qed

lemma Batch_end_Some:
  "snd (Batch_end tasks) = Settled (Some e) \<Longrightarrow> \<exists>t\<in>set tasks. snd t = Settled (Some e)"
proof (induction tasks)
  case Nil
  then show ?case by simp
next
  case (Cons t tasks)
  obtain es r where t: "t = (es, r)"
    by (cases t)
  from Cons show ?case
    unfolding t by (cases r) (auto simp: case_prod_unfold Let_def dest!: first_wins_Some)
qed

subsection \<open>The completion of the dependency resolver\<close>

lemma dep_task_Settled:
  assumes "snd (dep_task inst self entry) = Settled x"
  shows "x = None \<and>
    (\<exists>pkg. new_Package (Some (fst entry)) (Some (if ''*'' = snd entry then ''master'' else snd entry))
              (Some \<lparr>opt_dest = Some (dest self), opt_force = force self\<rparr>) = Inr pkg \<and>
            snd (inst pkg) = Settled EvEnd)"
  using assms
  by (auto simp: dep_task_def Let_def case_prod_unfold split: sum.splits dest: on_end_Settled)

lemma getDependencies_Settled:
  assumes "snd (getDependencies inst self deps) = Settled x"
  shows "x = None \<and> (\<forall>entry\<in>set deps. snd (dep_task inst self entry) = Settled None)"
proof -
  let ?tasks = "map (dep_task inst self) deps"
  from assms have settled: "snd (Batch_end ?tasks) = Settled x"
    by (simp add: getDependencies_def)
  have no_error: "x = None"
  proof (cases x)
    case None
    then show ?thesis .
  next
    case (Some e)
    with settled obtain t where "t \<in> set ?tasks" and "snd t = Settled (Some e)"
      using Batch_end_Some by blast
    then show ?thesis
      using dep_task_Settled by fastforce
  qed
  with settled have "\<forall>t\<in>set ?tasks. snd t = Settled None"
    using Batch_end_None by blast
  with no_error show ?thesis
    by simp
qed

text \<open>
  C3 says that the resolver reports the failure of a dependency to its caller. The
  sample server does not know \<open>component/tip\<close>: its install reads the local manifest,
  finds none, asks for the remote one and fails with \<open>failed to fetch\<close>. The package
  emits \<open>error\<close> in the callback of the request and, having no listener for it, throws
  there; \<open>done\<close> is not called, the resolver's callback is not reached, and the
  exception, raised in a callback, does not reach the resolver's caller either.
\<close>

theorem getDependencies_failure_unreported:
  "getDependencies (install (Suc 0) (sample_world (Inl (ErrnoError ''ENOENT'')))) dialog
       [(''component/tip'', ''*'')]
     = ([Emit dialog (EvDep tip),
         ReadFile ''components/component-tip/component.json'',
         Get ''https://raw.github.com/component/tip/master/component.json'',
         Emit tip (EvError (Error
           ''failed to fetch https://raw.github.com/component/tip/master/component.json''))],
        Uncaught (Error
           ''failed to fetch https://raw.github.com/component/tip/master/component.json''))"
  by (simp add: installer_defs sample_defs)

text \<open>
  C3, as the code has it. When the resolver's completion callback is reached, every
  entry of the mapping has given a package whose install has ended with the \<open>end\<close>
  event, and the callback is reached without an error: the resolver connects only the
  \<open>end\<close> event of a dependency to the batch, so the failure of a dependency is never
  passed to the completion callback.
\<close>

theorem getDependencies_completion:
  assumes "snd (getDependencies (install depth w) self deps) = Settled x"
  shows "x = None \<and>
    (\<forall>entry\<in>set deps.
       \<exists>pkg.
         new_Package (Some (fst entry)) (Some (if ''*'' = snd entry then ''master'' else snd entry))
           (Some \<lparr>opt_dest = Some (dest self), opt_force = force self\<rparr>) = Inr pkg \<and>
         snd (install depth w pkg) = Settled EvEnd)"
proof -
  from assms have none: "x = None"
    and tasks: "\<forall>entry\<in>set deps. snd (dep_task (install depth w) self entry) = Settled None"
    using getDependencies_Settled by blast+
  have "\<exists>pkg.
         new_Package (Some (fst entry)) (Some (if ''*'' = snd entry then ''master'' else snd entry))
           (Some \<lparr>opt_dest = Some (dest self), opt_force = force self\<rparr>) = Inr pkg \<and>
         snd (install depth w pkg) = Settled EvEnd"
    if "entry \<in> set deps" for entry
  proof -
    from that tasks have "snd (dep_task (install depth w) self entry) = Settled None"
      by blast
    then show ?thesis
      using dep_task_Settled by blast
  qed
  with none show ?thesis
    by blast
qed

theorem getDependencies_completion_witness:
  "snd (getDependencies (install (Suc 0) (sample_world (Inl (ErrnoError ''ENOENT'')))) dialog
          [(''component/emitter'', ''*'')]) = Settled None \<and>
   new_Package (Some ''component/emitter'') (Some ''master'')
     (Some \<lparr>opt_dest = Some ''components'', opt_force = False\<rparr>) = Inr emitter \<and>
   snd (install (Suc 0) (sample_world (Inl (ErrnoError ''ENOENT''))) emitter) = Settled EvEnd"
  using getDependencies_completion
    [of "Suc 0" "sample_world (Inl (ErrnoError ''ENOENT''))" dialog
        "[(''component/emitter'', ''*'')]" None]
  by (simp add: installer_defs sample_defs)

subsection \<open>Invalid input\<close>

text \<open>
  C4 says that constructing a descriptor fails when the name has no \<open>/\<close>. The
  constructor looks only for a missing name or version: \<open>lodash\<close> at \<open>1.0.0\<close> is
  constructed.
\<close>

theorem new_Package_accepts_no_separator:
  "CHR ''/'' \<notin> set ''lodash'' \<and>
   new_Package (Some ''lodash'') (Some ''1.0.0'') None
     = Inr \<lparr>name = ''lodash'', dest = ''components'', force = False, version = ''1.0.0''\<rparr>"
  by (simp add: new_Package_def falsy_def)

text \<open>
  C4, as the code has it. Constructing a descriptor fails with \<open>pkg required\<close> when the
  name is missing or empty, whatever the version, and with \<open>version required\<close> when the
  name is there and the version is missing or empty, whatever the name. With a name and
  a version the constructor succeeds, also for a name without \<open>/\<close>; it is \<open>install\<close> that
  rejects such a name, by emitting \<open>error\<close> (which the emitter throws to the caller when
  the package has no listener for it) as its only effect, before any access to the
  network or the file system.
\<close>

theorem invalid_input:
  assumes "CHR ''/'' \<notin> set (c # cs)"
  shows "new_Package None v opts = Inl (Error ''pkg required'') \<and>
         new_Package (Some []) v opts = Inl (Error ''pkg required'') \<and>
         new_Package (Some (a # as)) None opts = Inl (Error ''version required'') \<and>
         new_Package (Some (a # as)) (Some []) opts = Inl (Error ''version required'') \<and>
         (\<exists>built. new_Package (Some (a # as)) (Some (b # bs)) opts = Inr built \<and>
                  name built = a # as \<and> version built = b # bs) \<and>
         (\<exists>self. new_Package (Some (c # cs)) (Some (b # bs)) opts = Inr self \<and>
                 name self = c # cs \<and> version self = b # bs \<and>
                 install (Suc depth) w self =
                   ([Emit self (EvError (invalid_name self))],
                    if error_listener w self then Settled (EvError (invalid_name self))
                    else Threw (invalid_name self)) \<and>
                 filter is_io (fst (install (Suc depth) w self)) = [])"
  using assms by (simp add: new_Package_def falsy_def install_with_def emit_error_def Let_def)

theorem invalid_input_witness:
  "CHR ''/'' \<notin> set ''lodash'' \<and>
   new_Package None (Some ''1.0.0'') None = Inl (Error ''pkg required'') \<and>
   new_Package (Some ''component/emitter'') None None = Inl (Error ''version required'') \<and>
   new_Package (Some ''component/emitter'') (Some []) None = Inl (Error ''version required'') \<and>
   new_Package (Some ''lodash'') (Some ''master'') None = Inr lodash \<and>
   install (Suc 0) (sample_world (Inl (ErrnoError ''ENOENT''))) lodash
     = ([Emit lodash (EvError (invalid_name lodash))], Threw (invalid_name lodash)) \<and>
   install (Suc 0) ((sample_world (Inl (ErrnoError ''ENOENT'')))\<lparr>error_listener := listening\<rparr>) lodash
     = ([Emit lodash (EvError (invalid_name lodash))], Settled (EvError (invalid_name lodash)))"
proof -
  have slash: "CHR ''/'' \<notin> set (CHR ''l'' # ''odash'')"
    by simp
  note quiet = invalid_input
    [OF slash, where a = "CHR ''c''" and as = "''omponent/emitter''" and b = "CHR ''m''"
       and bs = "''aster''" and v = "Some ''1.0.0''" and opts = None and depth = 0
       and w = "sample_world (Inl (ErrnoError ''ENOENT''))"]
  note heard = invalid_input
    [OF slash, where a = "CHR ''c''" and as = "''omponent/emitter''" and b = "CHR ''m''"
       and bs = "''aster''" and v = "Some ''1.0.0''" and opts = None and depth = 0
       and w = "(sample_world (Inl (ErrnoError ''ENOENT'')))\<lparr>error_listener := listening\<rparr>"]
  show ?thesis
    using quiet heard by (simp add: installer_defs sample_defs listening_def)
qed

subsection \<open>The branches of install\<close>

text \<open>
  C5 says that \<open>install\<close> branches on the local manifest for every package
  descriptor. The constructor builds \<open>lodash\<close>, whose name has no separator, and for it
  \<open>install\<close> does not look at the local manifest at all: where no local manifest exists
  it emits \<open>error\<close> and never asks for the remote manifest, with which a full install
  begins; where a local manifest exists and \<open>force\<close> is off it emits \<open>error\<close>, not
  \<open>exists\<close>.
\<close>

theorem install_without_separator:
  "new_Package (Some ''lodash'') (Some ''master'') None = Inr lodash \<and>
   install (Suc 0) (sample_world (Inl (ErrnoError ''ENOENT''))) lodash
     = ([Emit lodash (EvError (invalid_name lodash))], Threw (invalid_name lodash)) \<and>
   fst (reallyInstall (install 0 (sample_world (Inl (ErrnoError ''ENOENT''))))
          (sample_world (Inl (ErrnoError ''ENOENT''))) lodash)
     = [Get ''https://raw.github.com/lodash/master/component.json'',
        Emit lodash (EvError (Error
          ''failed to fetch https://raw.github.com/lodash/master/component.json''))] \<and>
   fs_readFile (sample_world (Inr ''emitter manifest''))
       (join (sample_world (Inr ''emitter manifest'')) lodash ''component.json'')
     = Inr ''emitter manifest'' \<and>
   JSON_parse (sample_world (Inr ''emitter manifest'')) ''emitter manifest'' = Some emitter_json \<and>
   \<not> force lodash \<and>
   install (Suc 0) (sample_world (Inr ''emitter manifest'')) lodash
     = ([Emit lodash (EvError (invalid_name lodash))], Threw (invalid_name lodash))"
  by (simp add: installer_defs sample_defs)

text \<open>
  C5, as the code has it. For a package whose name has the separator, \<open>install\<close> reads
  the local manifest and then: when the read fails with the code \<open>ENOENT\<close> it goes on
  with the full install; when the manifest is read and parsed and \<open>force\<close> is off it
  emits \<open>exists\<close> and nothing is written; when the manifest is read and parsed and
  \<open>force\<close> is on it goes on with the full install; when the read fails with any other
  error, or the text read does not parse, it emits \<open>error\<close> with that error and stops
  (the emitter throws the error, in the callback of the read, when the package has no
  listener for it).
\<close>

theorem install_branches:
  assumes "CHR ''/'' \<in> set (name self)"
  shows
    "(\<forall>err. fs_readFile w (join w self ''component.json'') = Inl err \<and>
            err_code err = Some ''ENOENT'' \<longrightarrow>
        install (Suc depth) w self =
          (ReadFile (join w self ''component.json'') # fst (reallyInstall (install depth w) w self),
           snd (reallyInstall (install depth w) w self))) \<and>
     (\<forall>txt json. fs_readFile w (join w self ''component.json'') = Inr txt \<and>
            JSON_parse w txt = Some json \<and> \<not> force self \<longrightarrow>
        install (Suc depth) w self =
          ([ReadFile (join w self ''component.json''), Emit self EvExists], Settled EvExists) \<and>
        filter is_write (fst (install (Suc depth) w self)) = []) \<and>
     (\<forall>txt json. fs_readFile w (join w self ''component.json'') = Inr txt \<and>
            JSON_parse w txt = Some json \<and> force self \<longrightarrow>
        install (Suc depth) w self =
          (ReadFile (join w self ''component.json'') # fst (reallyInstall (install depth w) w self),
           snd (reallyInstall (install depth w) w self))) \<and>
     (\<forall>err. fs_readFile w (join w self ''component.json'') = Inl err \<and>
            err_code err \<noteq> Some ''ENOENT'' \<longrightarrow>
        install (Suc depth) w self =
          ([ReadFile (join w self ''component.json''), Emit self (EvError err)],
           if error_listener w self then Settled (EvError err) else Uncaught err)) \<and>
     (\<forall>txt. fs_readFile w (join w self ''component.json'') = Inr txt \<and>
            JSON_parse w txt = None \<longrightarrow>
        install (Suc depth) w self =
          ([ReadFile (join w self ''component.json''), Emit self (EvError SyntaxError)],
           if error_listener w self then Settled (EvError SyntaxError)
           else Uncaught SyntaxError))"
  using assms
  by (simp add: install_with_def getLocalJSON_def emit_error_def case_prod_unfold Let_def)

theorem install_branches_witness:
  "CHR ''/'' \<in> set (name emitter) \<and>
   snd (install (Suc 0) (sample_world (Inl (ErrnoError ''ENOENT''))) emitter) = Settled EvEnd \<and>
   install (Suc 0) (sample_world (Inr ''emitter manifest'')) emitter
     = ([ReadFile ''components/component-emitter/component.json'', Emit emitter EvExists],
        Settled EvExists) \<and>
   snd (install (Suc 0) (sample_world (Inr ''emitter manifest'')) (emitter\<lparr>force := True\<rparr>))
     = Settled EvEnd \<and>
   install (Suc 0) (sample_world (Inl (ErrnoError ''EACCES''))) emitter
     = ([ReadFile ''components/component-emitter/component.json'',
         Emit emitter (EvError (ErrnoError ''EACCES''))],
        Uncaught (ErrnoError ''EACCES'')) \<and>
   install (Suc 0) (sample_world (Inr ''not a manifest'')) emitter
     = ([ReadFile ''components/component-emitter/component.json'',
         Emit emitter (EvError SyntaxError)],
        Uncaught SyntaxError) \<and>
   install (Suc 0) ((sample_world (Inr ''not a manifest''))\<lparr>error_listener := listening\<rparr>) emitter
     = ([ReadFile ''components/component-emitter/component.json'',
         Emit emitter (EvError SyntaxError)],
        Settled (EvError SyntaxError))"
proof -
  have slash: "CHR ''/'' \<in> set (name emitter)"
    by (simp add: emitter_def)
  have forced: "CHR ''/'' \<in> set (name (emitter\<lparr>force := True\<rparr>))"
    by (simp add: emitter_def)
  note a = install_branches [OF slash, of "sample_world (Inl (ErrnoError ''ENOENT''))" 0]
  note b = install_branches [OF slash, of "sample_world (Inr ''emitter manifest'')" 0]
  note c = install_branches [OF forced, of "sample_world (Inr ''emitter manifest'')" 0]
  note d = install_branches [OF slash, of "sample_world (Inl (ErrnoError ''EACCES''))" 0]
  note e = install_branches [OF slash, of "sample_world (Inr ''not a manifest'')" 0]
  note f = install_branches
    [OF slash, of "(sample_world (Inr ''not a manifest''))\<lparr>error_listener := listening\<rparr>" 0]
  show ?thesis
    using a b c d e f by (simp add: installer_defs sample_defs listening_def)
qed

subsection \<open>The packages of the dependency resolver\<close>

text \<open>
  C8. For a parent built by the constructor and a dependency mapping whose names and
  versions are not empty, the resolver runs one task for each entry, and the package of
  that task is the spec's: the entry's name, \<open>master\<close> for the version \<open>*\<close> and the
  given version otherwise, the parent's destination directory and the parent's force
  flag. The task emits \<open>dep\<close> with that package and installs it.
\<close>

theorem getDependencies_packages:
  assumes "new_Package pn pv po = Inr self"
    and "\<forall>entry\<in>set deps. fst entry \<noteq> [] \<and> snd entry \<noteq> []"
  shows "getDependencies inst self deps =
           Batch_end (map (\<lambda>entry. (Emit self (EvDep (spec_dep_package self entry))
                                       # fst (inst (spec_dep_package self entry)),
                                     on_end (snd (inst (spec_dep_package self entry))))) deps)"
proof -
  from assms(1) have "dest self \<noteq> []"
    by (auto simp: new_Package_def Let_def falsy_def split: if_splits)
  then have "dep_task inst self entry =
      (Emit self (EvDep (spec_dep_package self entry)) # fst (inst (spec_dep_package self entry)),
       on_end (snd (inst (spec_dep_package self entry))))"
    if "fst entry \<noteq> []" and "snd entry \<noteq> []" for entry
    using that
    by (simp add: dep_task_def new_Package_def falsy_def spec_dep_package_def Let_def
        case_prod_unfold)
  with assms(2) have "map (dep_task inst self) deps =
      map (\<lambda>entry. (Emit self (EvDep (spec_dep_package self entry))
                       # fst (inst (spec_dep_package self entry)),
                     on_end (snd (inst (spec_dep_package self entry))))) deps"
    by simp
  then show ?thesis
    by (simp only: getDependencies_def)
qed

theorem getDependencies_packages_witness:
  "new_Package (Some ''component/dialog'') (Some ''1.0.0'') None = Inr dialog \<and>
   fst (''component/emitter'', ''*'') \<noteq> [] \<and> snd (''component/emitter'', ''*'') \<noteq> [] \<and>
   spec_dep_package dialog (''component/emitter'', ''*'') = emitter \<and>
   getDependencies (install (Suc 0) (sample_world (Inl (ErrnoError ''ENOENT'')))) dialog
       [(''component/emitter'', ''*'')]
     = Batch_end
         [(Emit dialog (EvDep emitter)
             # fst (install (Suc 0) (sample_world (Inl (ErrnoError ''ENOENT''))) emitter),
           on_end (snd (install (Suc 0) (sample_world (Inl (ErrnoError ''ENOENT''))) emitter)))]"
proof -
  have built: "new_Package (Some ''component/dialog'') (Some ''1.0.0'') None = Inr dialog"
    by (simp add: new_Package_def falsy_def dialog_def)
  have entries: "\<forall>entry\<in>set [(''component/emitter'', ''*'')]. fst entry \<noteq> [] \<and> snd entry \<noteq> []"
    by simp
  have pkg: "spec_dep_package dialog (''component/emitter'', ''*'') = emitter"
    by (simp add: spec_dep_package_def dialog_def emitter_def)
  show ?thesis
    using getDependencies_packages
      [OF built entries, of "install (Suc 0) (sample_world (Inl (ErrnoError ''ENOENT'')))"]
      built pkg
    by simp
qed

subsection \<open>Errors of directory creation\<close>

lemma dirname_mkdirp: "dirname (w\<lparr>mkdirp := m\<rparr>) self = dirname w self"
  by (simp add: dirname_def)

lemma join_mkdirp: "join (w\<lparr>mkdirp := m\<rparr>) self path = join w self path"
  by (simp add: join_def dirname_mkdirp)

lemma writeFile_mkdirp: "writeFile (w\<lparr>mkdirp := m\<rparr>) self file str = writeFile w self file str"
  by (simp add: writeFile_def join_mkdirp)

lemma getFile_mkdirp: "getFile (w\<lparr>mkdirp := m\<rparr>) self = getFile w self"
  by (simp add: getFile_def writeFile_mkdirp fun_eq_iff Let_def)

lemma getFiles_mkdirp: "getFiles (w\<lparr>mkdirp := m\<rparr>) self files = getFiles w self files"
  by (simp add: getFiles_def getFile_mkdirp)

lemma getJSON_mkdirp: "getJSON (w\<lparr>mkdirp := m\<rparr>) self = getJSON w self"
  by (simp add: getJSON_def Let_def)

lemma getLocalJSON_mkdirp: "getLocalJSON (w\<lparr>mkdirp := m\<rparr>) self = getLocalJSON w self"
  by (simp add: getLocalJSON_def join_mkdirp Let_def split: sum.splits)

lemma write_manifest_mkdirp:
  "write_manifest (w\<lparr>mkdirp := m\<rparr>) self json =
     ([Mkdir (dirname w self), WriteFile (join w self ''component.json'') (JSON_stringify w json)],
      Settled (fs_writeFile w (join w self ''component.json'') (JSON_stringify w json)))"
  by (simp add: write_manifest_def writeFile_def join_mkdirp dirname_mkdirp Let_def)

lemma fetch_files_mkdirp:
  "fetch_files (w\<lparr>mkdirp := m\<rparr>) self files =
     (Mkdir (dirname w self) # fst (getFiles w self files), snd (getFiles w self files))"
  by (simp add: fetch_files_def getFiles_mkdirp dirname_mkdirp case_prod_unfold Let_def)

lemma emit_error_mkdirp: "emit_error (w\<lparr>mkdirp := m\<rparr>) self err = emit_error w self err"
  by (simp add: emit_error_def)

lemma finish_mkdirp: "finish (w\<lparr>mkdirp := m\<rparr>) self r = finish w self r"
  by (cases "(w, self, r)" rule: finish.cases) (simp_all add: emit_error_mkdirp)

lemma write_manifest_any: "write_manifest (w\<lparr>mkdirp := m\<rparr>) self json = write_manifest w self json"
  by (simp add: write_manifest_def writeFile_mkdirp dirname_mkdirp)

lemma fetch_files_any: "fetch_files (w\<lparr>mkdirp := m\<rparr>) self files = fetch_files w self files"
  by (simp add: fetch_files_def getFiles_mkdirp dirname_mkdirp)

lemma reallyInstall_mkdirp: "reallyInstall inst (w\<lparr>mkdirp := m\<rparr>) self = reallyInstall inst w self"
  by (simp add: reallyInstall_def getJSON_mkdirp write_manifest_any fetch_files_any
      emit_error_mkdirp finish_mkdirp Let_def split: prod.splits sum.splits)

lemma install_with_mkdirp: "install_with inst (w\<lparr>mkdirp := m\<rparr>) self = install_with inst w self"
  by (simp add: install_with_def getLocalJSON_mkdirp reallyInstall_mkdirp emit_error_mkdirp
      split: prod.splits sum.splits)

lemma install_mkdirp: "install depth (w\<lparr>mkdirp := m\<rparr>) = install depth w"
proof (induction depth)
  case 0
  show ?case by (simp add: fun_eq_iff)
next
  case (Suc depth)
  show ?case by (rule ext) (simp add: install_with_mkdirp Suc.IH)
qed

text \<open>
  C10. In the full install the result of creating the directory is not looked at: whatever
  \<open>mkdirp\<close> answers (the world \<open>w\<close> with its \<open>mkdirp\<close> replaced by any \<open>m\<close>), the first
  task goes on to write the manifest and the second to fetch the files, and the full
  install and the whole install do what they do when the directory is created without an
  error. So an error of \<open>mkdirp\<close> alone never makes the package emit \<open>error\<close>.
\<close>

theorem mkdir_error_ignored:
  "write_manifest (w\<lparr>mkdirp := m\<rparr>) self json =
     ([Mkdir (dirname w self), WriteFile (join w self ''component.json'') (JSON_stringify w json)],
      Settled (fs_writeFile w (join w self ''component.json'') (JSON_stringify w json))) \<and>
   fetch_files (w\<lparr>mkdirp := m\<rparr>) self files =
     (Mkdir (dirname w self) # fst (getFiles w self files), snd (getFiles w self files)) \<and>
   reallyInstall inst (w\<lparr>mkdirp := m\<rparr>) self = reallyInstall inst w self \<and>
   install depth (w\<lparr>mkdirp := m\<rparr>) self = install depth w self"
  by (simp only: write_manifest_mkdirp fetch_files_mkdirp reallyInstall_mkdirp install_mkdirp
      simp_thms)

theorem mkdir_error_ignored_witness:
  "failing_mkdirp ''components/component-emitter'' = Some (ErrnoError ''EACCES'') \<and>
   install (Suc 0) ((sample_world (Inl (ErrnoError ''ENOENT'')))\<lparr>mkdirp := failing_mkdirp\<rparr>) emitter
     = install (Suc 0) (sample_world (Inl (ErrnoError ''ENOENT''))) emitter \<and>
   snd (install (Suc 0) ((sample_world (Inl (ErrnoError ''ENOENT'')))\<lparr>mkdirp := failing_mkdirp\<rparr>)
          emitter) = Settled EvEnd"
proof -
  have same:
    "install (Suc 0) ((sample_world (Inl (ErrnoError ''ENOENT'')))\<lparr>mkdirp := failing_mkdirp\<rparr>) emitter
       = install (Suc 0) (sample_world (Inl (ErrnoError ''ENOENT''))) emitter"
    using mkdir_error_ignored
      [where w = "sample_world (Inl (ErrnoError ''ENOENT''))" and m = failing_mkdirp
         and self = emitter and depth = "Suc 0"]
    by blast
  have "snd (install (Suc 0) (sample_world (Inl (ErrnoError ''ENOENT''))) emitter) = Settled EvEnd"
    by (simp add: installer_defs sample_defs)
  with same show ?thesis
    by (simp add: failing_mkdirp_def)
qed

end
